theory Spec2Isabelle
  imports Complex_Main
begin

section \<open>Data model\<close>

text \<open>
  The agent of \<^verbatim>\<open>src/pie_g/agent.py\<close> is embedded with explicit state passing.

  Every Python exception is a value of type \<open>error\<close>; a call that can raise returns
  \<open>error + 'a\<close> with \<open>Inl\<close> for the exception. A call into the library that raises is
  taken to have written nothing, with two exceptions: an optimiser step and the blend
  of the target critic return the parameters as the failing call left them. A training
  batch is a record of the fields that \<^verbatim>\<open>update\<close> reads, so every field is present.
\<close>

datatype error =
  AssertionError | ValueError | ZeroDivisionError | RuntimeError
  | NotImplementedError | FileNotFoundError

text \<open>
  Rewards, value estimates, losses and logged numbers are single-precision floats: a
  real number, an infinity or not-a-number. An operation on numbers takes the exact
  result and gives an infinity when single precision overflows, that is when the
  magnitude reaches \<open>2^128 - 2^103\<close>; a result in range is kept exact, so rounding is not
  modelled. The special values follow IEEE 754, and \<^verbatim>\<open>torch.min\<close> propagates
  not-a-number.
\<close>

datatype float32 = Finite real | PosInf | NegInf | NaN

definition overflow_threshold :: real where
  "overflow_threshold = 2 ^ 128 - 2 ^ 103"

definition round_overflow :: "real \<Rightarrow> float32" where
  "round_overflow x =
     (if overflow_threshold \<le> x then PosInf
      else if x \<le> - overflow_threshold then NegInf
      else Finite x)"

fun fneg :: "float32 \<Rightarrow> float32" where
  "fneg (Finite x) = Finite (- x)"
| "fneg PosInf = NegInf"
| "fneg NegInf = PosInf"
| "fneg NaN = NaN"

fun fadd :: "float32 \<Rightarrow> float32 \<Rightarrow> float32" where
  "fadd (Finite x) (Finite y) = round_overflow (x + y)"
| "fadd NaN b = NaN"
| "fadd a NaN = NaN"
| "fadd PosInf NegInf = NaN"
| "fadd NegInf PosInf = NaN"
| "fadd PosInf b = PosInf"
| "fadd a PosInf = PosInf"
| "fadd NegInf b = NegInf"
| "fadd a NegInf = NegInf"

definition fsub :: "float32 \<Rightarrow> float32 \<Rightarrow> float32" where
  "fsub a b = fadd a (fneg b)"

definition inf_times :: "real \<Rightarrow> float32" where
  "inf_times x = (if x = 0 then NaN else if 0 < x then PosInf else NegInf)"

fun fmul :: "float32 \<Rightarrow> float32 \<Rightarrow> float32" where
  "fmul (Finite x) (Finite y) = round_overflow (x * y)"
| "fmul NaN b = NaN"
| "fmul a NaN = NaN"
| "fmul PosInf (Finite y) = inf_times y"
| "fmul NegInf (Finite y) = fneg (inf_times y)"
| "fmul (Finite x) PosInf = inf_times x"
| "fmul (Finite x) NegInf = fneg (inf_times x)"
| "fmul PosInf PosInf = PosInf"
| "fmul PosInf NegInf = NegInf"
| "fmul NegInf PosInf = NegInf"
| "fmul NegInf NegInf = PosInf"

fun fmin :: "float32 \<Rightarrow> float32 \<Rightarrow> float32" where
  "fmin (Finite x) (Finite y) = Finite (min x y)"
| "fmin NaN b = NaN"
| "fmin a NaN = NaN"
| "fmin NegInf b = NegInf"
| "fmin a NegInf = NegInf"
| "fmin PosInf b = b"
| "fmin a PosInf = a"

fun fdiv_count :: "float32 \<Rightarrow> nat \<Rightarrow> float32" where
  "fdiv_count (Finite x) n = (if n = 0 then inf_times x else Finite (x / real n))"
| "fdiv_count a n = a"

type_synonym tensor = "real list"

type_synonym params = "tensor list"

type_synonym grads = "tensor list"

type_synonym generator = nat

type_synonym logs = "string \<rightharpoonup> float32"

text \<open>
  Image encodings, actions and parameters are only handed to the library or combined
  entry by entry with one another, so such a tensor is the list of its elements in
  row-major order, over the reals. A pixel batch keeps its shape, which the code
  inspects. A tensor that the code combines under torch's broadcasting (rewards,
  termination flags, value estimates) keeps its shape too.
\<close>

record frames =
  dims :: "nat list"
  vals :: "real list"

record 'a shaped =
  shape :: "nat list"
  entries :: "'a list"

type_synonym ftensor = "float32 shaped"

text \<open>
  The sampling strategy is an enumeration of the \<^verbatim>\<open>segdac\<close> package, and the attribute
  \<open>sampling_strategy\<close> is kept by the base class \<^verbatim>\<open>StochasticAgent\<close>. The code asks only
  whether it is \<open>RANDOM\<close>; \<open>MEAN\<close> stands for every other member.
\<close>

datatype SamplingStrategy = RANDOM | MEAN

record 'o lib =
  resnet18 :: "error option"
  randn_error :: "nat list \<Rightarrow> error option"
  forward_conv :: "frames \<Rightarrow> error + tensor"
  fc_ln :: "params \<Rightarrow> tensor \<Rightarrow> error + tensor"
  trunk_policy :: "params \<Rightarrow> tensor \<Rightarrow> error + tensor"
  trunk_Q1_Q2 :: "params \<Rightarrow> tensor \<Rightarrow> tensor \<Rightarrow> error + ftensor \<times> ftensor"
  schedule :: "string \<Rightarrow> int \<Rightarrow> error + real"
  random_overlay :: "frames \<Rightarrow> string \<Rightarrow> generator \<Rightarrow> error + frames \<times> generator"
  F_pad :: "frames \<Rightarrow> nat \<Rightarrow> error + frames"
  F_grid_sample :: "frames \<Rightarrow> (real \<times> real) list list \<Rightarrow> error + frames"
  randint :: "nat \<Rightarrow> generator \<Rightarrow> nat \<times> generator"
  standard_normal :: "generator \<Rightarrow> real \<times> generator"
  item_error :: "float32 \<Rightarrow> error option"
  critic_loss_backward ::
    "params \<Rightarrow> params \<Rightarrow> tensor \<Rightarrow> tensor \<Rightarrow> tensor \<Rightarrow> ftensor \<Rightarrow> error + grads \<times> grads"
  actor_loss_backward :: "params \<Rightarrow> params \<Rightarrow> tensor \<Rightarrow> tensor \<Rightarrow> error + grads"
  adam_step :: "'o \<Rightarrow> params \<Rightarrow> grads \<Rightarrow> error \<times> params \<times> 'o + params \<times> 'o"
  soft_update_params_error :: "params \<Rightarrow> params \<Rightarrow> real \<Rightarrow> (error \<times> params) option"
  new_Adam :: "params \<Rightarrow> real \<Rightarrow> 'o"
  new_parameters :: "nat list \<Rightarrow> generator \<Rightarrow> params \<times> generator"
  low :: real
  high :: real

text \<open>
  The record \<open>lib\<close> holds what the module calls but does not define: loading the
  pretrained ResNet (\<open>resnet18\<close> is the error it raises, if any), the error that
  \<^verbatim>\<open>torch.randn\<close> raises for a shape, if any (\<open>randn_error\<close>), the layers of
  \<^verbatim>\<open>torch.nn\<close> (\<open>forward_conv\<close> is the frozen ResNet trunk with the frame
  differences of \<^verbatim>\<open>ResEncoder.forward_conv\<close>, \<open>fc_ln\<close> the trainable projection and
  normalisation, \<open>trunk_policy\<close> and \<open>trunk_Q1_Q2\<close> the feed-forward stacks of the actor
  and of the twin critic), the random generator, the error that reading a number off
  the device with \<^verbatim>\<open>.item()\<close> raises, if any, automatic differentiation (\<open>backward\<close> of
  the two losses, giving the gradients of the parameters each loss reaches), the Adam
  optimiser and its step, the initial weights of a stack of layers of given widths
  (\<open>new_parameters\<close>), and of \<^verbatim>\<open>pie_g.utils\<close> the functions \<open>schedule\<close> and
  \<open>random_overlay\<close> and the bounds \<open>low\<close> and \<open>high\<close> of the truncated normal
  distribution. Buffers of the frozen trunk (batch-norm statistics) are not parameters
  and are not modelled.

  An optimiser step writes the parameters in place, one tensor after the other, so a
  step that raises may have written some of them: \<open>adam_step\<close> returns, beside the
  error, the parameters and the optimiser state as the failing step left them. In the
  same way \<open>soft_update_params_error\<close> is the error that \<^verbatim>\<open>utils.soft_update_params\<close>
  raises, if any, with the target parameters as the failing call left them. Constructing
  layers and optimisers, \<^verbatim>\<open>zero_grad\<close>, \<^verbatim>\<open>train\<close> and \<^verbatim>\<open>eval\<close> are taken
  not to raise.
\<close>

text \<open>
  The attributes of \<^verbatim>\<open>PIEGAgent\<close>. A network is the list of its parameter tensors and
  an optimiser the state \<open>'o\<close> of the library's Adam. The training flags are what
  \<^verbatim>\<open>train()\<close> and \<^verbatim>\<open>eval()\<close> set. \<open>torch_generator\<close> is the global random generator of
  torch, kept here so that a single state is threaded through the calls.
\<close>

record 'o agent =
  critic_target_tau :: real
  update_every_steps :: int
  stddev_schedule :: string
  stddev_clip :: real
  discount :: real
  env_step :: int
  places365_data_dir_path :: string
  sampling_strategy :: SamplingStrategy
  training :: bool
  encoder_training :: bool
  actor_training :: bool
  critic_training :: bool
  critic_target_training :: bool
  encoder :: params
  actor :: params
  critic :: params
  critic_target :: params
  encoder_opt :: 'o
  actor_opt :: 'o
  critic_opt :: 'o
  aug_pad :: nat
  torch_generator :: generator

record batch =
  pixels_transformed :: frames
  action :: tensor
  next_reward :: ftensor
  next_pixels_transformed :: frames
  next_done :: "bool shaped"

section \<open>Tensor operations\<close>

text \<open>
  Broadcasting as torch does it: the two shapes are aligned at their last dimension;
  two sizes agree when they are equal or one of them is 1, and a missing dimension
  counts as 1. The entries of the result run through its indices in row-major order,
  and an operand is read at the index with 0 in place of every dimension of size 1.
\<close>

fun broadcast_rev :: "nat list \<Rightarrow> nat list \<Rightarrow> nat list option" where
  "broadcast_rev [] ys = Some ys"
| "broadcast_rev xs [] = Some xs"
| "broadcast_rev (x # xs) (y # ys) =
     (if x = y \<or> y = 1 then map_option ((#) x) (broadcast_rev xs ys)
      else if x = 1 then map_option ((#) y) (broadcast_rev xs ys)
      else None)"

definition broadcast_shapes :: "nat list \<Rightarrow> nat list \<Rightarrow> nat list option" where
  "broadcast_shapes s t = map_option rev (broadcast_rev (rev s) (rev t))"

fun indices :: "nat list \<Rightarrow> nat list list" where
  "indices [] = [[]]"
| "indices (n # ns) = concat (map (\<lambda>i. map ((#) i) (indices ns)) [0..<n])"

fun offset :: "nat list \<Rightarrow> nat list \<Rightarrow> nat" where
  "offset (n # ns) (i # js) = i * prod_list ns + offset ns js"
| "offset ns js = 0"

definition source_index :: "nat list \<Rightarrow> nat list \<Rightarrow> nat list" where
  "source_index s idx =
     map2 (\<lambda>n i. if n = 1 then 0 else i) s (drop (length idx - length s) idx)"

definition entry_at :: "'a shaped \<Rightarrow> nat list \<Rightarrow> 'a" where
  "entry_at t idx = entries t ! offset (shape t) (source_index (shape t) idx)"

definition elementwise ::
  "('a \<Rightarrow> 'b \<Rightarrow> 'c) \<Rightarrow> 'a shaped \<Rightarrow> 'b shaped \<Rightarrow> error + 'c shaped" where
  "elementwise f a b =
     (case broadcast_shapes (shape a) (shape b) of
        None \<Rightarrow> Inl RuntimeError
      | Some s \<Rightarrow> Inr \<lparr>shape = s, entries = map (\<lambda>idx. f (entry_at a idx) (entry_at b idx)) (indices s)\<rparr>)"


definition mean :: "ftensor \<Rightarrow> float32" where
  "mean t = fdiv_count (foldl fadd (Finite 0) (entries t)) (length (entries t))"

definition mse_loss :: "ftensor \<Rightarrow> ftensor \<Rightarrow> error + float32" where
  "mse_loss input target =
     (case elementwise (\<lambda>x y. fmul (fsub x y) (fsub x y)) input target of
        Inl e \<Rightarrow> Inl e
      | Inr d \<Rightarrow> Inr (mean d))"

definition item :: "'o lib \<Rightarrow> float32 \<Rightarrow> error + float32" where
  "item L x = (case item_error L x of Some e \<Rightarrow> Inl e | None \<Rightarrow> Inr x)"

definition clamp :: "real \<Rightarrow> real \<Rightarrow> real \<Rightarrow> real" where
  "clamp x l u = min (max x l) u"

fun randn :: "'o lib \<Rightarrow> nat \<Rightarrow> generator \<Rightarrow> tensor \<times> generator" where
  "randn L 0 g = ([], g)"
| "randn L (Suc n) g =
     (let (z, g1) = standard_normal L g; (zs, g2) = randn L n g1 in (z # zs, g2))"

fun randints :: "'o lib \<Rightarrow> nat \<Rightarrow> nat \<Rightarrow> generator \<Rightarrow> nat list \<times> generator" where
  "randints L bound 0 g = ([], g)"
| "randints L bound (Suc n) g =
     (let (k, g1) = randint L bound g; (ks, g2) = randints L bound n g1 in (k # ks, g2))"

section \<open>The truncated normal distribution\<close>

text \<open>
  Modelled from the spec: \<^verbatim>\<open>utils.TruncatedNormal\<close> is not among the sources. The spec
  describes it as a Gaussian restricted to a bounded interval, whose sampling is
  optionally clipped to a maximum deviation from the mean: the noise, scaled by the
  standard deviation, is clipped to \<open>[- clip, clip]\<close> when a clip is given, added to the
  mean and the sum is kept within the bounds of the distribution. The distribution is
  its mean \<open>loc\<close>, its standard deviation \<open>scale\<close> and its bounds \<open>lo\<close> and \<open>hi\<close>.
\<close>

record TruncatedNormal =
  loc :: tensor
  scale :: tensor
  lo :: real
  hi :: real

definition sample :: "'o lib \<Rightarrow> TruncatedNormal \<Rightarrow> real option \<Rightarrow> generator \<Rightarrow> tensor \<times> generator" where
  "sample L d clip g =
     (let (noise, g1) = randn L (length (loc d)) g;
          eps = map2 (*) noise (scale d);
          eps = (case clip of None \<Rightarrow> eps | Some c \<Rightarrow> map (\<lambda>e. clamp e (- c) c) eps);
          x = map2 (+) (loc d) eps
      in (map (\<lambda>v. clamp v (lo d) (hi d)) x, g1))"

section \<open>Actor and critic\<close>

definition Actor_forward :: "'o lib \<Rightarrow> params \<Rightarrow> tensor \<Rightarrow> real \<Rightarrow> error + TruncatedNormal" where
  "Actor_forward L \<theta> obs std =
     (case trunk_policy L \<theta> obs of
        Inl e \<Rightarrow> Inl e
      | Inr mu \<Rightarrow>
          (let mu = map tanh mu;
               std = map (\<lambda>m. 1 * std) mu
           in Inr \<lparr>loc = mu, scale = std, lo = low L, hi = high L\<rparr>))"

definition Critic_forward :: "'o lib \<Rightarrow> params \<Rightarrow> tensor \<Rightarrow> tensor \<Rightarrow> error + ftensor \<times> ftensor" where
  "Critic_forward L \<theta> obs act = trunk_Q1_Q2 L \<theta> obs act"

section \<open>Random shift augmentation\<close>

definition linspace :: "real \<Rightarrow> real \<Rightarrow> nat \<Rightarrow> real list" where
  "linspace a b steps =
     (if steps = 1 then [a]
      else map (\<lambda>i. a + real i * ((b - a) / real (steps - 1))) [0..<steps])"

definition RandomShiftsAug_forward ::
  "'o lib \<Rightarrow> nat \<Rightarrow> frames \<Rightarrow> generator \<Rightarrow> error + frames \<times> generator" where
  "RandomShiftsAug_forward L pad x g =
     (case dims x of
        [n, c, h, w] \<Rightarrow>
          if h \<noteq> w then Inl AssertionError
          else
            (case F_pad L x pad of
               Inl e \<Rightarrow> Inl e
             | Inr x \<Rightarrow>
                 if h + 2 * pad = 0 then Inl ZeroDivisionError
                 else
                   (let eps = 1 / real (h + 2 * pad);
                        arange = take h (linspace (- 1 + eps) (1 - eps) (h + 2 * pad));
                        base_grid =
                          concat (map (\<lambda>i. map (\<lambda>j. (arange ! j, arange ! i)) [0..<h]) [0..<h]);
                        (shift, g1) = randints L (2 * pad + 1) (n * 2) g;
                        shift = map (\<lambda>s. real s * (2 / real (h + 2 * pad))) shift;
                        grid =
                          map (\<lambda>b. map (\<lambda>(u, v). (u + shift ! (2 * b), v + shift ! (2 * b + 1)))
                                 base_grid) [0..<n]
                    in (case F_grid_sample L x grid of
                          Inl e \<Rightarrow> Inl e
                        | Inr y \<Rightarrow> Inr (y, g1))))
      | _ \<Rightarrow> Inl ValueError)"

section \<open>Encoders\<close>


definition ResEncoder_init :: "'o lib \<Rightarrow> nat list \<Rightarrow> generator \<Rightarrow> error + (nat \<times> params) \<times> generator" where
  "ResEncoder_init L obs_shape g =
     (case resnet18 L of
        Some e \<Rightarrow> Inl e
      | None \<Rightarrow>
          (case randn_error L (32 # obs_shape) of
             Some e \<Rightarrow> Inl e
           | None \<Rightarrow>
               (let repr_dim = 1024;
                    (x, g1) = randn L (prod_list (32 # obs_shape)) g
                in (case forward_conv L \<lparr>dims = 32 # obs_shape, vals = x\<rparr> of
                      Inl e \<Rightarrow> Inl e
                    | Inr out \<Rightarrow>
                        (let out_dim = length out div 32;
                             (fc_and_ln, g2) = new_parameters L [out_dim, repr_dim] g1
                         in Inr ((repr_dim, fc_and_ln), g2))))))"

definition ResEncoder_forward :: "'o lib \<Rightarrow> params \<Rightarrow> frames \<Rightarrow> error + tensor" where
  "ResEncoder_forward L \<theta> obs =
     (case forward_conv L obs of
        Inl e \<Rightarrow> Inl e
      | Inr conv \<Rightarrow> fc_ln L \<theta> conv)"

definition Actor_init :: "'o lib \<Rightarrow> nat \<Rightarrow> nat \<Rightarrow> nat \<Rightarrow> nat \<Rightarrow> generator \<Rightarrow> params \<times> generator" where
  "Actor_init L repr_dim action_shape feature_dim hidden_dim g =
     new_parameters L [repr_dim, feature_dim, hidden_dim, hidden_dim, action_shape] g"

definition Critic_init :: "'o lib \<Rightarrow> nat \<Rightarrow> nat \<Rightarrow> nat \<Rightarrow> nat \<Rightarrow> generator \<Rightarrow> params \<times> generator" where
  "Critic_init L repr_dim action_shape feature_dim hidden_dim g =
     new_parameters L
       [repr_dim, feature_dim, feature_dim + action_shape, hidden_dim, hidden_dim, 1,
        feature_dim + action_shape, hidden_dim, hidden_dim, 1] g"

section \<open>The agent\<close>

text \<open>
  Modelled from the spec: \<^verbatim>\<open>utils.soft_update_params\<close> is not among the sources. The
  spec has it blend each target parameter toward the live parameter, elementwise, as
  \<open>tau * critic + (1 - tau) * old_target\<close>.
\<close>

definition soft_update_params :: "params \<Rightarrow> params \<Rightarrow> real \<Rightarrow> params" where
  "soft_update_params net target_net tau =
     map2 (\<lambda>param target_param. map2 (\<lambda>p t. tau * p + (1 - tau) * t) param target_param)
       net target_net"

definition PIEGAgent_init ::
  "'o lib \<Rightarrow> nat list \<Rightarrow> nat \<Rightarrow> real \<Rightarrow> real \<Rightarrow> nat \<Rightarrow> nat \<Rightarrow> real \<Rightarrow> int \<Rightarrow> string \<Rightarrow> real \<Rightarrow> string
     \<Rightarrow> SamplingStrategy \<Rightarrow> generator \<Rightarrow> error + 'o agent" where
  "PIEGAgent_init L obs_shape action_dim gamma lr feature_dim hidden_dim tau every stddev clip
       data_dir strategy g =
     (case ResEncoder_init L obs_shape g of
        Inl e \<Rightarrow> Inl e
      | Inr ((repr_dim, enc), g1) \<Rightarrow>
          (let (act, g2) = Actor_init L repr_dim action_dim feature_dim hidden_dim g1;
               (cri, g3) = Critic_init L repr_dim action_dim feature_dim hidden_dim g2;
               (tgt, g4) = Critic_init L repr_dim action_dim feature_dim hidden_dim g3;
               tgt = cri
           in Inr \<lparr>critic_target_tau = tau, update_every_steps = every,
                    stddev_schedule = stddev, stddev_clip = clip, discount = gamma,
                    env_step = 0, places365_data_dir_path = data_dir,
                    sampling_strategy = strategy, training = True,
                    encoder_training = True, actor_training = True,
                    critic_training = True, critic_target_training = True,
                    encoder = enc, actor = act, critic = cri, critic_target = tgt,
                    encoder_opt = new_Adam L enc lr, actor_opt = new_Adam L act lr,
                    critic_opt = new_Adam L cri lr, aug_pad = 4, torch_generator = g4\<rparr>))"

definition get_action :: "'o lib \<Rightarrow> 'o agent \<Rightarrow> frames \<Rightarrow> 'o agent \<times> (error + tensor)" where
  "get_action L a observation =
     (case ResEncoder_forward L (encoder a) observation of
        Inl e \<Rightarrow> (a, Inl e)
      | Inr obs \<Rightarrow>
          (case schedule L (stddev_schedule a) (env_step a) of
             Inl e \<Rightarrow> (a, Inl e)
           | Inr stddev \<Rightarrow>
               (case Actor_forward L (actor a) obs stddev of
                  Inl e \<Rightarrow> (a, Inl e)
                | Inr d \<Rightarrow>
                    if sampling_strategy a = RANDOM then
                      (let (act, g) = sample L d None (torch_generator a)
                       in (a\<lparr>torch_generator := g, env_step := env_step a + 1\<rparr>, Inr act))
                    else (a, Inr (loc d)))))"

definition train :: "'o agent \<Rightarrow> bool \<Rightarrow> 'o agent" where
  "train a t = a\<lparr>training := t, encoder_training := t, actor_training := t, critic_training := t\<rparr>"

text \<open>
  Expressions of \<^verbatim>\<open>update\<close> and \<^verbatim>\<open>update_critic\<close>, named: the mask
  \<^verbatim>\<open>1 - done.float()\<close>, the target
  \<^verbatim>\<open>reward + not_done * (discount * torch.min(target_Q1, target_Q2))\<close>, and the sum
  \<^verbatim>\<open>F.mse_loss(Q1, target_Q) + F.mse_loss(Q2, target_Q)\<close> that is taken once for the
  plain and once for the overlaid observation.
\<close>

definition not_done_of :: "bool shaped \<Rightarrow> ftensor" where
  "not_done_of done =
     \<lparr>shape = shape done,
      entries = map (\<lambda>d. fsub (Finite 1) (if d then Finite 1 else Finite 0)) (entries done)\<rparr>"

definition target_Q_of :: "ftensor \<Rightarrow> real \<Rightarrow> ftensor \<Rightarrow> ftensor \<Rightarrow> ftensor \<Rightarrow> error + ftensor" where
  "target_Q_of reward disc not_done target_Q1 target_Q2 =
     (case elementwise fmin target_Q1 target_Q2 of
        Inl e \<Rightarrow> Inl e
      | Inr target_V \<Rightarrow>
          (case elementwise fmul not_done
                  (target_V\<lparr>entries := map (fmul (Finite disc)) (entries target_V)\<rparr>) of
             Inl e \<Rightarrow> Inl e
           | Inr bootstrap \<Rightarrow> elementwise fadd reward bootstrap))"

definition twin_mse_loss :: "ftensor \<Rightarrow> ftensor \<Rightarrow> ftensor \<Rightarrow> error + float32" where
  "twin_mse_loss Q1 Q2 target_Q =
     (case mse_loss Q1 target_Q of
        Inl e \<Rightarrow> Inl e
      | Inr l1 \<Rightarrow>
          (case mse_loss Q2 target_Q of
             Inl e \<Rightarrow> Inl e
           | Inr l2 \<Rightarrow> Inr (fadd l1 l2)))"

text \<open>
  The two gradient updates. \<^verbatim>\<open>zero_grad\<close> precedes each backward pass, so an optimiser
  step sees the gradients of its own loss only: the backward pass returns them and the
  step consumes them. A failing call returns the agent as the exception leaves it.
  The four logged numbers of \<^verbatim>\<open>update_critic\<close> are read off the device before its
  backward pass, the one of \<^verbatim>\<open>update_actor\<close> after the step of the actor.
\<close>

definition update_critic ::
  "'o lib \<Rightarrow> 'o agent \<Rightarrow> tensor \<Rightarrow> tensor \<Rightarrow> ftensor \<Rightarrow> real \<Rightarrow> ftensor \<Rightarrow> tensor \<Rightarrow> int \<Rightarrow> tensor
     \<Rightarrow> 'o agent \<times> (error + logs)" where
  "update_critic L a0 obs act reward disc not_done next_obs step aug_obs =
     (let a = a0\<lparr>actor_training := False, critic_target_training := False,
                 critic_training := True\<rparr>
      in case schedule L (stddev_schedule a) step of Inl e \<Rightarrow> (a, Inl e) | Inr stddev \<Rightarrow>
        (case Actor_forward L (actor a) next_obs stddev of Inl e \<Rightarrow> (a, Inl e) | Inr d \<Rightarrow>
        (let (next_action, g) = sample L d (Some (stddev_clip a)) (torch_generator a);
             a = a\<lparr>torch_generator := g\<rparr>
         in case Critic_forward L (critic_target a) next_obs next_action of
              Inl e \<Rightarrow> (a, Inl e)
            | Inr (target_Q1, target_Q2) \<Rightarrow>
        (case target_Q_of reward disc not_done target_Q1 target_Q2 of
           Inl e \<Rightarrow> (a, Inl e)
         | Inr target_Q \<Rightarrow>
        (case Critic_forward L (critic a) obs act of Inl e \<Rightarrow> (a, Inl e) | Inr (Q1, Q2) \<Rightarrow>
        (case twin_mse_loss Q1 Q2 target_Q of Inl e \<Rightarrow> (a, Inl e) | Inr critic_loss \<Rightarrow>
        (case Critic_forward L (critic a) aug_obs act of
           Inl e \<Rightarrow> (a, Inl e)
         | Inr (aug_Q1, aug_Q2) \<Rightarrow>
        (case twin_mse_loss aug_Q1 aug_Q2 target_Q of Inl e \<Rightarrow> (a, Inl e) | Inr aug_loss \<Rightarrow>
        (let critic_loss = fmul (Finite 0.5) (fadd critic_loss aug_loss)
         in case item L (mean target_Q) of Inl e \<Rightarrow> (a, Inl e) | Inr critic_target_q \<Rightarrow>
        (case item L (mean Q1) of Inl e \<Rightarrow> (a, Inl e) | Inr critic_q1 \<Rightarrow>
        (case item L (mean Q2) of Inl e \<Rightarrow> (a, Inl e) | Inr critic_q2 \<Rightarrow>
        (case item L critic_loss of Inl e \<Rightarrow> (a, Inl e) | Inr critic_loss_item \<Rightarrow>
        (let logs = [''critic_target_q'' \<mapsto> critic_target_q, ''critic_q1'' \<mapsto> critic_q1,
                     ''critic_q2'' \<mapsto> critic_q2, ''critic_loss'' \<mapsto> critic_loss_item]
         in case critic_loss_backward L (encoder a) (critic a) obs aug_obs act target_Q of
              Inl e \<Rightarrow> (a, Inl e)
            | Inr (encoder_grad, critic_grad) \<Rightarrow>
        (case adam_step L (critic_opt a) (critic a) critic_grad of
           Inl (e, cri, copt) \<Rightarrow> (a\<lparr>critic := cri, critic_opt := copt\<rparr>, Inl e)
         | Inr (cri, copt) \<Rightarrow>
        (let a = a\<lparr>critic := cri, critic_opt := copt\<rparr>
         in case adam_step L (encoder_opt a) (encoder a) encoder_grad of
              Inl (e, enc, eopt) \<Rightarrow> (a\<lparr>encoder := enc, encoder_opt := eopt\<rparr>, Inl e)
            | Inr (enc, eopt) \<Rightarrow>
                (a\<lparr>encoder := enc, encoder_opt := eopt\<rparr>, Inr logs))))))))))))))))"

definition update_actor :: "'o lib \<Rightarrow> 'o agent \<Rightarrow> tensor \<Rightarrow> int \<Rightarrow> 'o agent \<times> (error + logs)" where
  "update_actor L a0 obs step =
     (let a = a0\<lparr>critic_training := False, actor_training := True\<rparr>
      in case schedule L (stddev_schedule a) step of Inl e \<Rightarrow> (a, Inl e) | Inr stddev \<Rightarrow>
        (case Actor_forward L (actor a) obs stddev of Inl e \<Rightarrow> (a, Inl e) | Inr d \<Rightarrow>
        (let (act, g) = sample L d (Some (stddev_clip a)) (torch_generator a);
             a = a\<lparr>torch_generator := g\<rparr>
         in case Critic_forward L (critic a) obs act of Inl e \<Rightarrow> (a, Inl e) | Inr (Q1, Q2) \<Rightarrow>
        (case elementwise fmin Q1 Q2 of Inl e \<Rightarrow> (a, Inl e) | Inr Q \<Rightarrow>
        (let actor_loss = fneg (mean Q)
         in case actor_loss_backward L (actor a) (critic a) obs act of
              Inl e \<Rightarrow> (a, Inl e)
            | Inr actor_grad \<Rightarrow>
        (case adam_step L (actor_opt a) (actor a) actor_grad of
           Inl (e, ac, aopt) \<Rightarrow> (a\<lparr>actor := ac, actor_opt := aopt\<rparr>, Inl e)
         | Inr (ac, aopt) \<Rightarrow>
        (let a = a\<lparr>actor := ac, actor_opt := aopt\<rparr>
         in case item L actor_loss of
              Inl e \<Rightarrow> (a, Inl e)
            | Inr actor_loss_item \<Rightarrow> (a, Inr [''actor_loss'' \<mapsto> actor_loss_item]))))))))"

definition update :: "'o lib \<Rightarrow> 'o agent \<Rightarrow> batch \<Rightarrow> int \<Rightarrow> 'o agent \<times> (error + logs)" where
  "update L a0 train_data step =
     (let a = train a0 True;
          obs = pixels_transformed train_data;
          act = action train_data;
          reward = next_reward train_data;
          disc = discount a;
          next_obs = next_pixels_transformed train_data;
          not_done = not_done_of (next_done train_data);
          logs = Map.empty
      in if update_every_steps a = 0 then (a, Inl ZeroDivisionError)
         else if step mod update_every_steps a \<noteq> 0 then (a, Inr logs)
         else
        (case RandomShiftsAug_forward L (aug_pad a) obs (torch_generator a) of
           Inl e \<Rightarrow> (a, Inl e)
         | Inr (obs, g) \<Rightarrow>
        (let a = a\<lparr>torch_generator := g\<rparr>;
             original_obs = obs
         in case RandomShiftsAug_forward L (aug_pad a) next_obs (torch_generator a) of
              Inl e \<Rightarrow> (a, Inl e)
            | Inr (next_obs, g) \<Rightarrow>
        (let a = a\<lparr>torch_generator := g\<rparr>
         in case ResEncoder_forward L (encoder a) obs of Inl e \<Rightarrow> (a, Inl e) | Inr obs \<Rightarrow>
        (case random_overlay L original_obs (places365_data_dir_path a) (torch_generator a) of
           Inl e \<Rightarrow> (a, Inl e)
         | Inr (overlaid, g) \<Rightarrow>
        (let a = a\<lparr>torch_generator := g\<rparr>
         in case ResEncoder_forward L (encoder a) overlaid of
              Inl e \<Rightarrow> (a, Inl e)
            | Inr aug_obs \<Rightarrow>
        (case ResEncoder_forward L (encoder a) next_obs of
           Inl e \<Rightarrow> (a, Inl e)
         | Inr next_obs \<Rightarrow>
        (case update_critic L a obs act reward disc not_done next_obs step aug_obs of
           (a, Inl e) \<Rightarrow> (a, Inl e)
         | (a, Inr critic_logs) \<Rightarrow>
        (case update_actor L a obs step of
           (a, Inl e) \<Rightarrow> (a, Inl e)
         | (a, Inr actor_logs) \<Rightarrow>
        (case soft_update_params_error L (critic a) (critic_target a) (critic_target_tau a) of
           Some (e, tgt) \<Rightarrow> (a\<lparr>critic_target := tgt\<rparr>, Inl e)
         | None \<Rightarrow>
             (a\<lparr>critic_target :=
                  soft_update_params (critic a) (critic_target a) (critic_target_tau a)\<rparr>,
              Inr (logs ++ critic_logs ++ actor_logs))))))))))))"

definition parameters :: "'o agent \<Rightarrow> params \<times> params \<times> params \<times> params" where
  "parameters a = (encoder a, actor a, critic a, critic_target a)"




section \<open>A small instance\<close>

text \<open>
  A library instance small enough to run the model on concrete inputs: networks that are
  linear in their input, a critic that returns one value for each sample, a generator
  that counts its draws, gradients of ones and an optimiser step of a tenth of the
  gradient. The overlay corpus exists under one path only, the schedule knows one
  constant, and no call fails for want of resources.
\<close>

definition example_lib :: "nat lib" where
  "example_lib =
     \<lparr>resnet18 = None,
      randn_error = (\<lambda>s. None),
      forward_conv = (\<lambda>x. Inr (take (hd (dims x)) (vals x))),
      fc_ln = (\<lambda>\<theta> conv. Inr (map (\<lambda>v. sum_list (concat \<theta>) * v) conv)),
      trunk_policy = (\<lambda>\<theta> obs. Inr (map (\<lambda>v. sum_list (concat \<theta>) * v) obs)),
      trunk_Q1_Q2 = (\<lambda>\<theta> obs act.
        Inr (\<lparr>shape = [length obs, 1],
              entries = map2 (\<lambda>v u. Finite (v + u + sum_list (concat \<theta>))) obs act\<rparr>,
             \<lparr>shape = [length obs, 1], entries = map2 (\<lambda>v u. Finite (v - u)) obs act\<rparr>)),
      schedule = (\<lambda>s t. if s = ''0.2'' then Inr (1 / 5) else Inl NotImplementedError),
      random_overlay = (\<lambda>x dir g.
        if dir = ''places365_standard'' then Inr (x, g + 1) else Inl FileNotFoundError),
      F_pad = (\<lambda>x p. Inr x),
      F_grid_sample = (\<lambda>x grid. Inr x),
      randint = (\<lambda>bound g. (g mod bound, g + 1)),
      standard_normal = (\<lambda>g. (1, g + 1)),
      item_error = (\<lambda>x. None),
      critic_loss_backward = (\<lambda>enc cri obs aug_obs act target.
        Inr (map (map (\<lambda>p. 1)) enc, map (map (\<lambda>p. 1)) cri)),
      actor_loss_backward = (\<lambda>ac cri obs act. Inr (map (map (\<lambda>p. 1)) ac)),
      adam_step = (\<lambda>t \<theta> g. Inr (map2 (map2 (\<lambda>p d. p - d / 10)) \<theta> g, t + 1)),
      soft_update_params_error = (\<lambda>net target_net tau. None),
      new_Adam = (\<lambda>\<theta> lr. 0),
      new_parameters = (\<lambda>widths g. ([map real widths], g + 1)),
      low = - 1, high = 1\<rparr>"

definition example_agent :: "nat agent" where
  "example_agent =
     \<lparr>critic_target_tau = 1 / 100, update_every_steps = 2, stddev_schedule = ''0.2'',
      stddev_clip = 3 / 10, discount = 99 / 100, env_step = 0,
      places365_data_dir_path = ''places365_standard'', sampling_strategy = RANDOM,
      training = True, encoder_training = True, actor_training = True,
      critic_training = True, critic_target_training = True,
      encoder = [[1]], actor = [[1]], critic = [[1, 1]], critic_target = [[2, 0]],
      encoder_opt = 0, actor_opt = 0, critic_opt = 0, aug_pad = 4, torch_generator = 0\<rparr>"

definition example_batch :: batch where
  "example_batch =
     \<lparr>pixels_transformed = \<lparr>dims = [2, 3, 1, 1], vals = [0, 0, 0, 0, 0, 0]\<rparr>,
      action = [0, 0],
      next_reward = \<lparr>shape = [2, 1], entries = [Finite 1, Finite 1]\<rparr>,
      next_pixels_transformed = \<lparr>dims = [2, 3, 1, 1], vals = [0, 0, 0, 0, 0, 0]\<rparr>,
      next_done = \<lparr>shape = [2, 1], entries = [False, False]\<rparr>\<rparr>"


section \<open>Properties\<close>

subsection \<open>Evaluation on numerals\<close>

lemma randints_numeral:
  "randints L bound (numeral v) g =
     (let (k, g1) = randint L bound g; (ks, g2) = randints L bound (pred_numeral v) g1
      in (k # ks, g2))"
  by (simp add: numeral_eq_Suc)

lemma randn_numeral:
  "randn L (numeral v) g =
     (let (z, g1) = standard_normal L g; (zs, g2) = randn L (pred_numeral v) g1
      in (z # zs, g2))"
  by (simp add: numeral_eq_Suc)

lemmas example_defs =
  example_lib_def example_agent_def example_batch_def update_def Let_def update_critic_def
  update_actor_def train_def RandomShiftsAug_forward_def ResEncoder_forward_def
  Actor_forward_def Critic_forward_def sample_def target_Q_of_def twin_mse_loss_def
  mse_loss_def elementwise_def mean_def clamp_def item_def not_done_of_def
  broadcast_shapes_def source_index_def entry_at_def round_overflow_def
  overflow_threshold_def fsub_def inf_times_def
  soft_update_params_def linspace_def get_action_def randints_numeral randn_numeral
  parameters_def upt_conv_Cons

lemmas init_defs = PIEGAgent_init_def ResEncoder_init_def Actor_init_def Critic_init_def

subsection \<open>Broadcasting\<close>



lemma length_indices: "length (indices s) = prod_list s"
proof (induction s)
  case Nil
  show ?case by simp
next
  case (Cons n ns)
  have "length (concat (map (\<lambda>i. map ((#) i) (indices ns)) [0..<n])) =
        sum_list (map (\<lambda>i. prod_list ns) [0..<n])"
    by (simp add: length_concat comp_def Cons.IH)
  also have "\<dots> = n * prod_list ns"
    by (simp add: sum_list_triv)
  finally show ?case by simp
qed








subsection \<open>Sampling\<close>

lemma length_randn: "length (fst (randn L n g)) = n"
proof (induction n arbitrary: g)
  case 0
  show ?case by simp
next
  case (Suc n)
  obtain z g1 where s: "standard_normal L g = (z, g1)"
    by (cases "standard_normal L g")
  obtain zs g2 where r: "randn L n g1 = (zs, g2)"
    by (cases "randn L n g1")
  from Suc [of g1] r have "length zs = n" by simp
  with s r show ?case by simp
qed

lemma clamp_clip: "0 \<le> c \<Longrightarrow> - c \<le> clamp e (- c) c \<and> clamp e (- c) c \<le> c"
  by (simp add: clamp_def)

lemma clamp_bounds:
  "l \<le> m \<Longrightarrow> m \<le> u \<Longrightarrow> \<bar>e\<bar> \<le> c \<Longrightarrow>
   m - c \<le> clamp (m + e) l u \<and> clamp (m + e) l u \<le> m + c \<and>
   l \<le> clamp (m + e) l u \<and> clamp (m + e) l u \<le> u"
  by (auto simp: clamp_def min_def max_def)

lemma sample_length:
  "length (scale d) = length (loc d) \<Longrightarrow> length (fst (sample L d clip g)) = length (loc d)"
  using length_randn [of L "length (loc d)" g]
  by (cases "randn L (length (loc d)) g") (simp add: sample_def Let_def split: option.splits)

lemma sample_nth:
  assumes "length (scale d) = length (loc d)" and "i < length (loc d)"
  shows "fst (sample L d (Some c) g) ! i =
         clamp (loc d ! i + clamp (fst (randn L (length (loc d)) g) ! i * scale d ! i) (- c) c)
           (lo d) (hi d)"
  using assms length_randn [of L "length (loc d)" g]
  by (cases "randn L (length (loc d)) g") (simp add: sample_def)

text \<open>The distribution the actor returns: its mean is a hyperbolic tangent, so strictly
  between -1 and 1, and every standard deviation is the scheduled one.\<close>

lemma Actor_forward_dist:
  assumes "Actor_forward L \<theta> obs std = Inr d"
  shows "length (scale d) = length (loc d) \<and> lo d = low L \<and> hi d = high L \<and>
         (\<forall>i < length (loc d). - 1 < loc d ! i \<and> loc d ! i < 1 \<and> scale d ! i = std)"
  using assms
  by (auto simp: Actor_forward_def Let_def tanh_real_gt_neg1 tanh_real_lt_1 split: sum.splits)

text \<open>
  Claim C5. For every mean the actor produces and every noise the generator draws, an
  action sampled with a clip \<open>c\<close> has as many entries as the mean, and each entry lies
  within \<open>c\<close> of the mean's entry and within the bounds of the distribution. The clip is
  a deviation, so not negative, and the bounds contain the range of the hyperbolic
  tangent that produces the mean.
\<close>

theorem sampled_action_within_clip_and_bounds:
  assumes "Actor_forward L \<theta> obs std = Inr d"
    and "0 \<le> c" and "low L \<le> - 1" and "1 \<le> high L"
  shows "length (fst (sample L d (Some c) g)) = length (loc d) \<and>
         (\<forall>i < length (loc d).
            loc d ! i - c \<le> fst (sample L d (Some c) g) ! i \<and>
            fst (sample L d (Some c) g) ! i \<le> loc d ! i + c \<and>
            low L \<le> fst (sample L d (Some c) g) ! i \<and>
            fst (sample L d (Some c) g) ! i \<le> high L)"
proof -
  note D = Actor_forward_dist [OF assms(1)]
  have len: "length (fst (sample L d (Some c) g)) = length (loc d)"
    using D by (simp add: sample_length)
  have "loc d ! i - c \<le> fst (sample L d (Some c) g) ! i \<and>
        fst (sample L d (Some c) g) ! i \<le> loc d ! i + c \<and>
        low L \<le> fst (sample L d (Some c) g) ! i \<and>
        fst (sample L d (Some c) g) ! i \<le> high L" if i: "i < length (loc d)" for i
  proof -
    let ?e = "clamp (fst (randn L (length (loc d)) g) ! i * scale d ! i) (- c) c"
    have e: "\<bar>?e\<bar> \<le> c"
      using clamp_clip [OF assms(2), of "fst (randn L (length (loc d)) g) ! i * scale d ! i"]
      by (simp add: abs_le_iff)
    have m: "low L \<le> loc d ! i" "loc d ! i \<le> high L"
      using D i assms(3,4) by force+
    have "fst (sample L d (Some c) g) ! i = clamp (loc d ! i + ?e) (low L) (high L)"
      using sample_nth [of d i L c g] D i by simp
    with clamp_bounds [OF m e] show ?thesis by simp
  qed
  with len show ?thesis by blast
qed

text \<open>The instance at a zero observation, standard deviation 0.2 and clip 0.1: the
  scaled noise 0.2 is clipped to 0.1.\<close>

theorem sampled_action_within_clip_and_bounds_witness:
  "Actor_forward example_lib [[1]] [0, 0] (1 / 5) =
     Inr \<lparr>loc = [0, 0], scale = [1 / 5, 1 / 5], lo = - 1, hi = 1\<rparr> \<and>
   (0::real) \<le> 1 / 10 \<and> low example_lib \<le> - 1 \<and> 1 \<le> high example_lib \<and>
   fst (sample example_lib \<lparr>loc = [0, 0], scale = [1 / 5, 1 / 5], lo = - 1, hi = 1\<rparr>
          (Some (1 / 10)) 0) = [1 / 10, 1 / 10] \<and>
   (0::real) - 1 / 10 \<le> 1 / 10 \<and> (1 / 10 :: real) \<le> 0 + 1 / 10 \<and>
   low example_lib \<le> 1 / 10 \<and> 1 / 10 \<le> high example_lib"
proof -
  have h: "Actor_forward example_lib [[1]] [0, 0] (1 / 5) =
           Inr \<lparr>loc = [0, 0], scale = [1 / 5, 1 / 5], lo = - 1, hi = 1\<rparr>"
    by (simp add: example_defs)
  have s: "fst (sample example_lib \<lparr>loc = [0, 0], scale = [1 / 5, 1 / 5], lo = - 1, hi = 1\<rparr>
                  (Some (1 / 10)) 0) = [1 / 10, 1 / 10]"
    by (simp add: example_defs)
  have b: "low example_lib \<le> - 1" "1 \<le> high example_lib"
    by (simp_all add: example_lib_def)
  from sampled_action_within_clip_and_bounds [OF h _ b, of "1 / 10" 0] h s
  show ?thesis by (simp add: example_lib_def)
qed

subsection \<open>What the gradient updates touch\<close>

lemma update_critic_frame:
  "actor (fst (update_critic L a obs act reward disc not_done next_obs step aug_obs)) = actor a \<and>
   critic_target (fst (update_critic L a obs act reward disc not_done next_obs step aug_obs)) =
     critic_target a"
  by (simp add: update_critic_def Let_def split: sum.splits prod.splits)

lemma update_actor_frame:
  "encoder (fst (update_actor L a obs step)) = encoder a \<and>
   critic (fst (update_actor L a obs step)) = critic a \<and>
   critic_target (fst (update_actor L a obs step)) = critic_target a"
  by (simp add: update_actor_def Let_def split: sum.splits prod.splits)

text \<open>
  Claim C2. For every input, \<open>update_critic\<close> leaves the actor's parameters as they
  were (and the target critic's: it steps the encoder and the critic only), and
  \<open>update_actor\<close> leaves the critic's and the encoder's parameters as they were (and the
  target critic's: it steps the actor only). This holds whether the call returns or
  raises.
\<close>

theorem gradient_updates_frame:
  "actor (fst (update_critic L a obs act reward disc not_done next_obs step aug_obs)) = actor a \<and>
   critic_target (fst (update_critic L a obs act reward disc not_done next_obs step aug_obs)) =
     critic_target a \<and>
   critic (fst (update_actor L a obs' step')) = critic a \<and>
   encoder (fst (update_actor L a obs' step')) = encoder a \<and>
   critic_target (fst (update_actor L a obs' step')) = critic_target a"
  using update_critic_frame [of L a obs act reward disc not_done next_obs step aug_obs]
    update_actor_frame [of L a obs' step']
  by simp

subsection \<open>Skipped updates\<close>

text \<open>
  Claim C4. On a step that the update frequency does not divide, \<open>update\<close> returns the
  empty log dictionary; the agent it leaves is the one it was given with the training
  flags set, so no parameter of the encoder, actor, critic or target critic has changed.
  The frequency is not zero: Python's \<open>%\<close> raises there.
\<close>

theorem update_skipped:
  assumes "update_every_steps a \<noteq> 0" and "step mod update_every_steps a \<noteq> 0"
  shows "snd (update L a train_data step) = Inr Map.empty \<and>
         fst (update L a train_data step) = train a True \<and>
         parameters (fst (update L a train_data step)) = parameters a"
  using assms by (simp add: update_def Let_def train_def parameters_def)

theorem update_skipped_witness:
  "update_every_steps example_agent \<noteq> 0 \<and> 3 mod update_every_steps example_agent \<noteq> 0 \<and>
   snd (update example_lib example_agent example_batch 3) = Inr Map.empty \<and>
   parameters (fst (update example_lib example_agent example_batch 3)) =
     parameters example_agent"
proof -
  have h: "update_every_steps example_agent \<noteq> 0" "3 mod update_every_steps example_agent \<noteq> 0"
    by (simp_all add: example_agent_def)
  from update_skipped [OF h, of example_lib example_batch] h
  show ?thesis by (simp add: train_def parameters_def)
qed

text \<open>With a frequency of zero the modulus raises, before any parameter is touched.\<close>

lemma update_zero_frequency:
  "update_every_steps a = 0 \<Longrightarrow>
   update L a train_data step = (train a True, Inl ZeroDivisionError)"
  by (simp add: update_def Let_def train_def)

subsection \<open>Action selection\<close>

text \<open>
  Claim C10. \<open>get_action\<close> modifies no parameter. It returns exactly when the encoder,
  the schedule at the step counter and the actor return, and then the step counter
  has advanced by exactly one under the sampling strategy \<open>RANDOM\<close>, with a sample of the
  actor's distribution returned, and is unchanged under any other, with the mean
  returned; when one of the three raises, the agent is unchanged. The standard deviation
  comes from the schedule at the counter, so it advances only with stochastic rollouts.
\<close>

theorem get_action_env_step:
  "parameters (fst (get_action L a observation)) = parameters a \<and>
   (case snd (get_action L a observation) of
      Inl e \<Rightarrow> fst (get_action L a observation) = a
    | Inr act \<Rightarrow>
        env_step (fst (get_action L a observation)) =
          (if sampling_strategy a = RANDOM then env_step a + 1 else env_step a) \<and>
        (\<exists>obs stddev d.
           ResEncoder_forward L (encoder a) observation = Inr obs \<and>
           schedule L (stddev_schedule a) (env_step a) = Inr stddev \<and>
           Actor_forward L (actor a) obs stddev = Inr d \<and>
           act = (if sampling_strategy a = RANDOM
                  then fst (sample L d None (torch_generator a)) else loc d))) \<and>
   (\<forall>obs stddev d.
      ResEncoder_forward L (encoder a) observation = Inr obs \<and>
      schedule L (stddev_schedule a) (env_step a) = Inr stddev \<and>
      Actor_forward L (actor a) obs stddev = Inr d \<longrightarrow>
        snd (get_action L a observation) =
          Inr (if sampling_strategy a = RANDOM
               then fst (sample L d None (torch_generator a)) else loc d) \<and>
        env_step (fst (get_action L a observation)) =
          (if sampling_strategy a = RANDOM then env_step a + 1 else env_step a))"
  by (auto simp: get_action_def parameters_def Let_def split: sum.splits prod.splits)

theorem get_action_env_step_witness:
  "ResEncoder_forward example_lib (encoder example_agent) (pixels_transformed example_batch) =
     Inr [0, 0] \<and>
   schedule example_lib (stddev_schedule example_agent) 0 = Inr (1 / 5) \<and>
   schedule example_lib (stddev_schedule example_agent) 5 = Inr (1 / 5) \<and>
   Actor_forward example_lib (actor example_agent) [0, 0] (1 / 5) =
     Inr \<lparr>loc = [0, 0], scale = [1 / 5, 1 / 5], lo = - 1, hi = 1\<rparr> \<and>
   snd (get_action example_lib example_agent (pixels_transformed example_batch)) =
     Inr [1 / 5, 1 / 5] \<and>
   env_step (fst (get_action example_lib example_agent (pixels_transformed example_batch))) =
     1 \<and>
   snd (get_action example_lib (example_agent\<lparr>sampling_strategy := MEAN, env_step := 5\<rparr>)
          (pixels_transformed example_batch)) = Inr [0, 0] \<and>
   env_step (fst (get_action example_lib
                    (example_agent\<lparr>sampling_strategy := MEAN, env_step := 5\<rparr>)
                    (pixels_transformed example_batch))) = 5"
proof -
  let ?m = "example_agent\<lparr>sampling_strategy := MEAN, env_step := 5\<rparr>"
  let ?d = "\<lparr>loc = [0, 0], scale = [1 / 5, 1 / 5], lo = - 1, hi = 1\<rparr>"
  have e: "ResEncoder_forward example_lib (encoder example_agent)
             (pixels_transformed example_batch) = Inr [0, 0]"
    by (simp add: example_defs)
  have s: "schedule example_lib (stddev_schedule example_agent) 0 = Inr (1 / 5)"
    "schedule example_lib (stddev_schedule example_agent) 5 = Inr (1 / 5)"
    by (simp_all add: example_defs)
  have d: "Actor_forward example_lib (actor example_agent) [0, 0] (1 / 5) = Inr ?d"
    by (simp add: example_defs)
  have r: "sampling_strategy example_agent = RANDOM" "env_step example_agent = 0"
    "sampling_strategy ?m \<noteq> RANDOM" "env_step ?m = 5"
    "encoder ?m = encoder example_agent" "actor ?m = actor example_agent"
    "stddev_schedule ?m = stddev_schedule example_agent"
    by (simp_all add: example_agent_def)
  have x: "fst (sample example_lib ?d None (torch_generator example_agent)) = [1 / 5, 1 / 5]"
    by (simp add: example_defs)
  have e': "ResEncoder_forward example_lib (encoder ?m) (pixels_transformed example_batch) =
              Inr [0, 0]"
    using e r by simp
  have s': "schedule example_lib (stddev_schedule ?m) (env_step ?m) = Inr (1 / 5)"
    "schedule example_lib (stddev_schedule example_agent) (env_step example_agent) =
       Inr (1 / 5)"
    using s r by simp_all
  have d': "Actor_forward example_lib (actor ?m) [0, 0] (1 / 5) = Inr ?d"
    using d r by simp
  from get_action_env_step [of example_lib example_agent "pixels_transformed example_batch",
      THEN conjunct2, THEN conjunct2, rule_format, OF conjI [OF e conjI [OF s'(2) d]]]
    r(1,2) x
  have 1: "snd (get_action example_lib example_agent (pixels_transformed example_batch)) =
             Inr [1 / 5, 1 / 5] \<and>
           env_step (fst (get_action example_lib example_agent
                            (pixels_transformed example_batch))) = 1"
    by simp
  from get_action_env_step [of example_lib ?m "pixels_transformed example_batch",
      THEN conjunct2, THEN conjunct2, rule_format, OF conjI [OF e' conjI [OF s'(1) d']]]
    r(3,4)
  have 2: "snd (get_action example_lib ?m (pixels_transformed example_batch)) = Inr [0, 0] \<and>
           env_step (fst (get_action example_lib ?m (pixels_transformed example_batch))) = 5"
    by simp
  from e s d 1 2 show ?thesis by simp
qed

subsection \<open>Losses as floats\<close>

















subsection \<open>The bootstrapped target\<close>




subsection \<open>The gradient updates, stage by stage\<close>

text \<open>A call of \<open>update_critic\<close> or \<open>update_actor\<close> returns exactly when every stage
  does; a call that raises with a parameter changed raised in an optimiser step, or
  after the last one.\<close>

lemma update_critic_returns:
  assumes "update_critic L a obs act reward disc not_done next_obs step aug_obs = (a', Inr lg)"
  shows "\<exists>stddev d next_action g target_Q1 target_Q2 target_Q Q1 Q2 aug_Q1 aug_Q2 l1 l2
           encoder_grad critic_grad cri copt enc eopt.
      schedule L (stddev_schedule a) step = Inr stddev \<and>
      Actor_forward L (actor a) next_obs stddev = Inr d \<and>
      sample L d (Some (stddev_clip a)) (torch_generator a) = (next_action, g) \<and>
      Critic_forward L (critic_target a) next_obs next_action = Inr (target_Q1, target_Q2) \<and>
      target_Q_of reward disc not_done target_Q1 target_Q2 = Inr target_Q \<and>
      Critic_forward L (critic a) obs act = Inr (Q1, Q2) \<and>
      twin_mse_loss Q1 Q2 target_Q = Inr l1 \<and>
      Critic_forward L (critic a) aug_obs act = Inr (aug_Q1, aug_Q2) \<and>
      twin_mse_loss aug_Q1 aug_Q2 target_Q = Inr l2 \<and>
      item_error L (mean target_Q) = None \<and> item_error L (mean Q1) = None \<and>
      item_error L (mean Q2) = None \<and>
      item_error L (fmul (Finite 0.5) (fadd l1 l2)) = None \<and>
      critic_loss_backward L (encoder a) (critic a) obs aug_obs act target_Q =
        Inr (encoder_grad, critic_grad) \<and>
      adam_step L (critic_opt a) (critic a) critic_grad = Inr (cri, copt) \<and>
      adam_step L (encoder_opt a) (encoder a) encoder_grad = Inr (enc, eopt) \<and>
      lg = [''critic_target_q'' \<mapsto> mean target_Q, ''critic_q1'' \<mapsto> mean Q1,
            ''critic_q2'' \<mapsto> mean Q2,
            ''critic_loss'' \<mapsto> fmul (Finite 0.5) (fadd l1 l2)] \<and>
      a' = a\<lparr>actor_training := False, critic_target_training := False,
              critic_training := True, torch_generator := g, critic := cri,
              critic_opt := copt, encoder := enc, encoder_opt := eopt\<rparr>"
  using assms
  by (auto simp: update_critic_def Let_def item_def split: sum.splits prod.splits option.splits)


lemma update_critic_raises:
  assumes "update_critic L a obs act reward disc not_done next_obs step aug_obs = (a', Inl e)"
    and "parameters a' \<noteq> parameters a"
  shows "\<exists>target_Q encoder_grad critic_grad cri copt.
      critic_loss_backward L (encoder a) (critic a) obs aug_obs act target_Q =
        Inr (encoder_grad, critic_grad) \<and>
      (adam_step L (critic_opt a) (critic a) critic_grad = Inl (e, cri, copt) \<and>
       parameters a' = (encoder a, actor a, cri, critic_target a) \<or>
       adam_step L (critic_opt a) (critic a) critic_grad = Inr (cri, copt) \<and>
       (\<exists>enc eopt.
          adam_step L (encoder_opt a) (encoder a) encoder_grad = Inl (e, enc, eopt) \<and>
          parameters a' = (enc, actor a, cri, critic_target a)))"
  using assms
  by (auto simp: update_critic_def Let_def item_def parameters_def
      split: sum.splits prod.splits option.splits) blast+

lemma update_actor_returns:
  assumes "update_actor L a obs step = (a', Inr lg)"
  shows "\<exists>stddev d act g Q1 Q2 Q actor_grad ac aopt.
      schedule L (stddev_schedule a) step = Inr stddev \<and>
      Actor_forward L (actor a) obs stddev = Inr d \<and>
      sample L d (Some (stddev_clip a)) (torch_generator a) = (act, g) \<and>
      Critic_forward L (critic a) obs act = Inr (Q1, Q2) \<and>
      elementwise fmin Q1 Q2 = Inr Q \<and>
      actor_loss_backward L (actor a) (critic a) obs act = Inr actor_grad \<and>
      adam_step L (actor_opt a) (actor a) actor_grad = Inr (ac, aopt) \<and>
      item_error L (fneg (mean Q)) = None \<and>
      lg = [''actor_loss'' \<mapsto> fneg (mean Q)] \<and>
      a' = a\<lparr>critic_training := False, actor_training := True, torch_generator := g,
              actor := ac, actor_opt := aopt\<rparr>"
  using assms
  by (auto simp: update_actor_def Let_def item_def split: sum.splits prod.splits option.splits)

lemma update_actor_raises:
  assumes "update_actor L a obs step = (a', Inl e)" and "parameters a' \<noteq> parameters a"
  shows "\<exists>act actor_grad ac aopt.
      actor_loss_backward L (actor a) (critic a) obs act = Inr actor_grad \<and>
      parameters a' = (encoder a, ac, critic a, critic_target a) \<and>
      (adam_step L (actor_opt a) (actor a) actor_grad = Inl (e, ac, aopt) \<or>
       adam_step L (actor_opt a) (actor a) actor_grad = Inr (ac, aopt) \<and>
       (\<exists>Q. item_error L (fneg (mean Q)) = Some e))"
  using assms
  by (auto simp: update_actor_def Let_def item_def parameters_def
      split: sum.splits prod.splits option.splits) blast+

subsection \<open>The critic update\<close>






subsection \<open>The update cycle\<close>

text \<open>The stages of a call of \<open>update\<close> that returns on an update step, and of one
  that raises after some parameter has changed.\<close>

lemma update_returns:
  assumes "update L a b step = (a', Inr lg)"
    and "update_every_steps a \<noteq> 0" and "step mod update_every_steps a = 0"
  shows "\<exists>obs g1 next_obs g2 enc_obs overlaid g3 aug_obs enc_next a1 l1 a2 l2.
     RandomShiftsAug_forward L (aug_pad a) (pixels_transformed b) (torch_generator a) =
       Inr (obs, g1) \<and>
     RandomShiftsAug_forward L (aug_pad a) (next_pixels_transformed b) g1 = Inr (next_obs, g2) \<and>
     ResEncoder_forward L (encoder a) obs = Inr enc_obs \<and>
     random_overlay L obs (places365_data_dir_path a) g2 = Inr (overlaid, g3) \<and>
     ResEncoder_forward L (encoder a) overlaid = Inr aug_obs \<and>
     ResEncoder_forward L (encoder a) next_obs = Inr enc_next \<and>
     update_critic L ((train a True)\<lparr>torch_generator := g3\<rparr>) enc_obs (action b)
       (next_reward b) (discount a) (not_done_of (next_done b)) enc_next step aug_obs =
       (a1, Inr l1) \<and>
     update_actor L a1 enc_obs step = (a2, Inr l2) \<and>
     soft_update_params_error L (critic a2) (critic_target a2) (critic_target_tau a2) = None \<and>
     a' = a2\<lparr>critic_target :=
               soft_update_params (critic a2) (critic_target a2) (critic_target_tau a2)\<rparr> \<and>
     lg = l1 ++ l2"
  using assms
  by (auto simp: update_def Let_def train_def split: sum.splits prod.splits option.splits)

lemma update_raises:
  assumes "update L a b step = (a', Inl e)" and "parameters a' \<noteq> parameters a"
  shows "\<exists>obs g1 next_obs g2 enc_obs overlaid g3 aug_obs enc_next.
     RandomShiftsAug_forward L (aug_pad a) (pixels_transformed b) (torch_generator a) =
       Inr (obs, g1) \<and>
     RandomShiftsAug_forward L (aug_pad a) (next_pixels_transformed b) g1 = Inr (next_obs, g2) \<and>
     ResEncoder_forward L (encoder a) obs = Inr enc_obs \<and>
     random_overlay L obs (places365_data_dir_path a) g2 = Inr (overlaid, g3) \<and>
     ResEncoder_forward L (encoder a) overlaid = Inr aug_obs \<and>
     ResEncoder_forward L (encoder a) next_obs = Inr enc_next \<and>
     (update_critic L ((train a True)\<lparr>torch_generator := g3\<rparr>) enc_obs (action b)
        (next_reward b) (discount a) (not_done_of (next_done b)) enc_next step aug_obs =
        (a', Inl e) \<or>
      (\<exists>a1 l1.
         update_critic L ((train a True)\<lparr>torch_generator := g3\<rparr>) enc_obs (action b)
           (next_reward b) (discount a) (not_done_of (next_done b)) enc_next step aug_obs =
           (a1, Inr l1) \<and>
         (update_actor L a1 enc_obs step = (a', Inl e) \<or>
          (\<exists>a2 l2 tgt.
             update_actor L a1 enc_obs step = (a2, Inr l2) \<and>
             soft_update_params_error L (critic a2) (critic_target a2) (critic_target_tau a2) =
               Some (e, tgt) \<and>
             a' = a2\<lparr>critic_target := tgt\<rparr>))))"
  using assms
  by (auto simp: update_def Let_def train_def parameters_def
      split: sum.splits prod.splits if_splits option.splits)







text \<open>
  Claim C7, as the code has it. Nothing is rolled back, and the parameter groups are
  written in the order critic, encoder, actor, target critic. A call of \<open>update\<close> that
  raises has changed no parameter; or it raised inside \<open>update_critic\<close>, with the actor
  and the target critic unchanged and the encoder changed only if the step of the
  critic had been completed; or it raised inside \<open>update_actor\<close>, after \<open>update_critic\<close>
  had stepped the critic and the encoder, with the target critic unchanged and the
  actor changed only by its own optimiser step (which raised, or was completed before
  reading the actor loss raised); or it raised in the blend, with critic, encoder and
  actor stepped and the target critic as the failing blend left it. A call that returns
  has either skipped the step and changed no parameter, or applied all four updates.
\<close>

theorem update_outcomes:
  assumes "update L a b step = (a', r)"
  shows "case r of
      Inl e \<Rightarrow>
        parameters a' = parameters a \<or>
        (\<exists>a0 enc_obs enc_next aug_obs.
           parameters a0 = parameters a \<and>
           update_critic L a0 enc_obs (action b) (next_reward b) (discount a)
             (not_done_of (next_done b)) enc_next step aug_obs = (a', Inl e) \<and>
           actor a' = actor a \<and> critic_target a' = critic_target a \<and>
           (encoder a' = encoder a \<or>
            (\<exists>critic_grad copt.
               adam_step L (critic_opt a) (critic a) critic_grad = Inr (critic a', copt)))) \<or>
        (\<exists>a0 enc_obs enc_next aug_obs a1 l1.
           parameters a0 = parameters a \<and>
           update_critic L a0 enc_obs (action b) (next_reward b) (discount a)
             (not_done_of (next_done b)) enc_next step aug_obs = (a1, Inr l1) \<and>
           update_actor L a1 enc_obs step = (a', Inl e) \<and>
           encoder a' = encoder a1 \<and> critic a' = critic a1 \<and>
           critic_target a' = critic_target a \<and>
           (actor a' = actor a \<or>
            (\<exists>actor_grad aopt.
               adam_step L (actor_opt a) (actor a) actor_grad = Inl (e, actor a', aopt) \<or>
               adam_step L (actor_opt a) (actor a) actor_grad = Inr (actor a', aopt)))) \<or>
        (\<exists>a0 enc_obs enc_next aug_obs a1 l1 a2 l2.
           parameters a0 = parameters a \<and>
           update_critic L a0 enc_obs (action b) (next_reward b) (discount a)
             (not_done_of (next_done b)) enc_next step aug_obs = (a1, Inr l1) \<and>
           update_actor L a1 enc_obs step = (a2, Inr l2) \<and>
           soft_update_params_error L (critic a1) (critic_target a) (critic_target_tau a) =
             Some (e, critic_target a') \<and>
           encoder a' = encoder a1 \<and> critic a' = critic a1 \<and> actor a' = actor a2)
    | Inr lg \<Rightarrow>
        (step mod update_every_steps a \<noteq> 0 \<and> lg = Map.empty \<and> parameters a' = parameters a) \<or>
        (\<exists>a0 enc_obs enc_next aug_obs a1 l1 a2 l2.
           parameters a0 = parameters a \<and>
           update_critic L a0 enc_obs (action b) (next_reward b) (discount a)
             (not_done_of (next_done b)) enc_next step aug_obs = (a1, Inr l1) \<and>
           update_actor L a1 enc_obs step = (a2, Inr l2) \<and>
           encoder a' = encoder a1 \<and> critic a' = critic a1 \<and> actor a' = actor a2 \<and>
           critic_target a' =
             soft_update_params (critic a1) (critic_target a) (critic_target_tau a))"
proof (cases r)
  case (Inl e)
  show ?thesis
  proof (cases "parameters a' = parameters a")
    case True
    with Inl show ?thesis by simp
  next
    case False
    from update_raises [OF assms [unfolded Inl] False]
    obtain g3 enc_obs aug_obs enc_next where
      stages: "update_critic L ((train a True)\<lparr>torch_generator := g3\<rparr>) enc_obs (action b)
          (next_reward b) (discount a) (not_done_of (next_done b)) enc_next step aug_obs =
          (a', Inl e) \<or>
        (\<exists>a1 l1.
           update_critic L ((train a True)\<lparr>torch_generator := g3\<rparr>) enc_obs (action b)
             (next_reward b) (discount a) (not_done_of (next_done b)) enc_next step aug_obs =
             (a1, Inr l1) \<and>
           (update_actor L a1 enc_obs step = (a', Inl e) \<or>
            (\<exists>a2 l2 tgt.
               update_actor L a1 enc_obs step = (a2, Inr l2) \<and>
               soft_update_params_error L (critic a2) (critic_target a2)
                 (critic_target_tau a2) = Some (e, tgt) \<and>
               a' = a2\<lparr>critic_target := tgt\<rparr>)))"
      by blast
    let ?a0 = "(train a True)\<lparr>torch_generator := g3\<rparr>"
    let ?uc = "update_critic L ?a0 enc_obs (action b) (next_reward b) (discount a)
      (not_done_of (next_done b)) enc_next step aug_obs"
    have p0: "parameters ?a0 = parameters a" "critic_target_tau ?a0 = critic_target_tau a"
      "critic_opt ?a0 = critic_opt a" "actor_opt ?a0 = actor_opt a"
      by (simp_all add: parameters_def train_def)
    then have q0: "encoder ?a0 = encoder a" "actor ?a0 = actor a" "critic ?a0 = critic a"
      "critic_target ?a0 = critic_target a"
      by (simp_all add: parameters_def)
    from stages consider
      (critic) "?uc = (a', Inl e)"
      | (actor) a1 l1 where "?uc = (a1, Inr l1)" "update_actor L a1 enc_obs step = (a', Inl e)"
      | (blend) a1 l1 a2 l2 tgt where "?uc = (a1, Inr l1)"
          "update_actor L a1 enc_obs step = (a2, Inr l2)"
          "soft_update_params_error L (critic a2) (critic_target a2) (critic_target_tau a2) =
             Some (e, tgt)"
          "a' = a2\<lparr>critic_target := tgt\<rparr>"
      by blast
    then show ?thesis
    proof cases
      case critic
      have f: "actor a' = actor a" "critic_target a' = critic_target a"
        using update_critic_frame [of L ?a0 enc_obs "action b" "next_reward b" "discount a"
            "not_done_of (next_done b)" enc_next step aug_obs] critic q0
        by simp_all
      have s: "encoder a' = encoder a \<or>
          (\<exists>critic_grad copt.
             adam_step L (critic_opt a) (critic a) critic_grad = Inr (critic a', copt))"
      proof (cases "parameters a' = parameters ?a0")
        case True
        then show ?thesis
          using p0 by (simp add: parameters_def)
      next
        case False
        from update_critic_raises [OF critic False] show ?thesis
          using q0 p0(3) by (auto simp: parameters_def)
      qed
      from p0(1) critic f s have
        "\<exists>a0 enc_obs enc_next aug_obs.
           parameters a0 = parameters a \<and>
           update_critic L a0 enc_obs (action b) (next_reward b) (discount a)
             (not_done_of (next_done b)) enc_next step aug_obs = (a', Inl e) \<and>
           actor a' = actor a \<and> critic_target a' = critic_target a \<and>
           (encoder a' = encoder a \<or>
            (\<exists>critic_grad copt.
               adam_step L (critic_opt a) (critic a) critic_grad = Inr (critic a', copt)))"
        by (intro exI [of _ ?a0] exI [of _ enc_obs] exI [of _ enc_next] exI [of _ aug_obs])
          simp
      with Inl show ?thesis by simp
    next
      case actor
      from update_critic_returns [OF actor(1)]
      have c1: "actor a1 = actor a" "critic_target a1 = critic_target a"
        "actor_opt a1 = actor_opt a"
        by (auto simp: train_def)
      have f: "encoder a' = encoder a1" "critic a' = critic a1"
        "critic_target a' = critic_target a1"
        using update_actor_frame [of L a1 enc_obs step] actor(2) by simp_all
      have s: "actor a' = actor a \<or>
          (\<exists>actor_grad aopt.
             adam_step L (actor_opt a) (actor a) actor_grad = Inl (e, actor a', aopt) \<or>
             adam_step L (actor_opt a) (actor a) actor_grad = Inr (actor a', aopt))"
      proof (cases "parameters a' = parameters a1")
        case True
        then show ?thesis
          using c1 by (simp add: parameters_def)
      next
        case False
        from update_actor_raises [OF actor(2) False] show ?thesis
          using c1 by (auto simp: parameters_def)
      qed
      from p0(1) actor f c1 s have
        "\<exists>a0 enc_obs enc_next aug_obs a1 l1.
           parameters a0 = parameters a \<and>
           update_critic L a0 enc_obs (action b) (next_reward b) (discount a)
             (not_done_of (next_done b)) enc_next step aug_obs = (a1, Inr l1) \<and>
           update_actor L a1 enc_obs step = (a', Inl e) \<and>
           encoder a' = encoder a1 \<and> critic a' = critic a1 \<and>
           critic_target a' = critic_target a \<and>
           (actor a' = actor a \<or>
            (\<exists>actor_grad aopt.
               adam_step L (actor_opt a) (actor a) actor_grad = Inl (e, actor a', aopt) \<or>
               adam_step L (actor_opt a) (actor a) actor_grad = Inr (actor a', aopt)))"
        by (intro exI [of _ ?a0] exI [of _ enc_obs] exI [of _ enc_next] exI [of _ aug_obs]
            exI [of _ a1] exI [of _ l1]) simp
      with Inl show ?thesis by simp
    next
      case blend
      from update_critic_returns [OF blend(1)]
      have c1: "critic_target a1 = critic_target a" "critic_target_tau a1 = critic_target_tau a"
        by (auto simp: train_def)
      from update_actor_returns [OF blend(2)]
      have c2: "encoder a2 = encoder a1" "critic a2 = critic a1"
        "critic_target a2 = critic_target a1" "critic_target_tau a2 = critic_target_tau a1"
        by auto
      from p0(1) blend c1 c2 have
        "\<exists>a0 enc_obs enc_next aug_obs a1 l1 a2 l2.
           parameters a0 = parameters a \<and>
           update_critic L a0 enc_obs (action b) (next_reward b) (discount a)
             (not_done_of (next_done b)) enc_next step aug_obs = (a1, Inr l1) \<and>
           update_actor L a1 enc_obs step = (a2, Inr l2) \<and>
           soft_update_params_error L (critic a1) (critic_target a) (critic_target_tau a) =
             Some (e, critic_target a') \<and>
           encoder a' = encoder a1 \<and> critic a' = critic a1 \<and> actor a' = actor a2"
        by (intro exI [of _ ?a0] exI [of _ enc_obs] exI [of _ enc_next] exI [of _ aug_obs]
            exI [of _ a1] exI [of _ l1] exI [of _ a2] exI [of _ l2]) simp
      with Inl show ?thesis by simp
    qed
  qed
next
  case (Inr lg)
  show ?thesis
  proof (cases "update_every_steps a \<noteq> 0 \<and> step mod update_every_steps a = 0")
    case False
    with assms Inr have
      "step mod update_every_steps a \<noteq> 0 \<and> lg = Map.empty \<and> parameters a' = parameters a"
      by (auto simp: update_def Let_def train_def parameters_def split: if_splits)
    then show ?thesis
      using Inr by simp
  next
    case True
    then have k: "update_every_steps a \<noteq> 0" "step mod update_every_steps a = 0"
      by simp_all
    from update_returns [OF assms [unfolded Inr] k]
    obtain g3 enc_obs aug_obs enc_next a1 l1 a2 l2 where
      uc: "update_critic L ((train a True)\<lparr>torch_generator := g3\<rparr>) enc_obs (action b)
             (next_reward b) (discount a) (not_done_of (next_done b)) enc_next step aug_obs =
             (a1, Inr l1)"
      and ua: "update_actor L a1 enc_obs step = (a2, Inr l2)"
      and a': "a' = a2\<lparr>critic_target :=
                 soft_update_params (critic a2) (critic_target a2) (critic_target_tau a2)\<rparr>"
      by blast
    let ?a0 = "(train a True)\<lparr>torch_generator := g3\<rparr>"
    have p0: "parameters ?a0 = parameters a"
      by (simp add: parameters_def train_def)
    from update_critic_returns [OF uc]
    have c1: "critic_target a1 = critic_target a" "critic_target_tau a1 = critic_target_tau a"
      by (auto simp: train_def)
    from update_actor_returns [OF ua]
    have c2: "encoder a2 = encoder a1" "critic a2 = critic a1"
      "critic_target a2 = critic_target a1" "critic_target_tau a2 = critic_target_tau a1"
      by auto
    from p0 uc ua c1 c2 a' have
      "\<exists>a0 enc_obs enc_next aug_obs a1 l1 a2 l2.
           parameters a0 = parameters a \<and>
           update_critic L a0 enc_obs (action b) (next_reward b) (discount a)
             (not_done_of (next_done b)) enc_next step aug_obs = (a1, Inr l1) \<and>
           update_actor L a1 enc_obs step = (a2, Inr l2) \<and>
           encoder a' = encoder a1 \<and> critic a' = critic a1 \<and> actor a' = actor a2 \<and>
           critic_target a' =
             soft_update_params (critic a1) (critic_target a) (critic_target_tau a)"
      by (intro exI [of _ ?a0] exI [of _ enc_obs] exI [of _ enc_next] exI [of _ aug_obs]
          exI [of _ a1] exI [of _ l1] exI [of _ a2] exI [of _ l2]) simp
    with Inr show ?thesis by simp
  qed
qed


text \<open>The instance: the step of the encoder raises, having written nothing, after the
  step of the critic has been completed.\<close>

theorem update_outcomes_witness:
  "snd (update (example_lib\<lparr>adam_step := \<lambda>t \<theta> g.
                   if \<theta> = [[1]] then Inl (RuntimeError, \<theta>, t)
                   else Inr (map2 (map2 (\<lambda>p d. p - d / 10)) \<theta> g, t + 1)\<rparr>)
          example_agent example_batch 4) = Inl RuntimeError \<and>
   parameters example_agent = ([[1]], [[1]], [[1, 1]], [[2, 0]]) \<and>
   parameters (fst (update (example_lib\<lparr>adam_step := \<lambda>t \<theta> g.
                   if \<theta> = [[1]] then Inl (RuntimeError, \<theta>, t)
                   else Inr (map2 (map2 (\<lambda>p d. p - d / 10)) \<theta> g, t + 1)\<rparr>)
          example_agent example_batch 4)) = ([[1]], [[1]], [[9 / 10, 9 / 10]], [[2, 0]])"
proof -
  let ?L = "example_lib\<lparr>adam_step := \<lambda>t \<theta> g.
                   if \<theta> = [[1]] then Inl (RuntimeError, \<theta>, t)
                   else Inr (map2 (map2 (\<lambda>p d. p - d / 10)) \<theta> g, t + 1)\<rparr>"
  let ?r = "update ?L example_agent example_batch 4"
  have s: "snd ?r = Inl RuntimeError"
    by (simp add: example_defs)
  then have h: "?r = (fst ?r, Inl RuntimeError)"
    by (simp add: prod_eq_iff)
  have p: "parameters example_agent = ([[1]], [[1]], [[1, 1]], [[2, 0]])"
    "parameters (fst ?r) = ([[1]], [[1]], [[9 / 10, 9 / 10]], [[2, 0]])"
    by (simp_all add: example_defs)
  from update_outcomes [OF h] s p show ?thesis
    by simp
qed

text \<open>The claim as the spec states it fails: when the backward pass of the actor loss
  raises, the call raises with the encoder and the critic stepped, the actor and the
  target critic not.\<close>

theorem update_not_atomic:
  "snd (update (example_lib\<lparr>actor_loss_backward := \<lambda>ac cri obs act. Inl RuntimeError\<rparr>)
          example_agent example_batch 4) = Inl RuntimeError \<and>
   parameters example_agent = ([[1]], [[1]], [[1, 1]], [[2, 0]]) \<and>
   parameters (fst (update (example_lib\<lparr>actor_loss_backward := \<lambda>ac cri obs act. Inl RuntimeError\<rparr>)
          example_agent example_batch 4)) = ([[9 / 10]], [[1]], [[9 / 10, 9 / 10]], [[2, 0]])"
  by (simp add: example_defs)

subsection \<open>Shape checks and the overlay corpus\<close>



lemma RandomShiftsAug_forward_returns:
  "RandomShiftsAug_forward L pad x g = Inr r \<Longrightarrow>
   \<exists>n c h. dims x = [n, c, h, h]"
  by (auto simp: RandomShiftsAug_forward_def split: list.splits if_splits)





text \<open>
  Claim C9, as the code has it. Construction stores the data path without looking at
  it: whether construction succeeds, and everything else it builds, is the same for
  every path. An error that \<open>random_overlay\<close> raises for the path surfaces from
  \<open>update\<close>, on an update step once both augmentations and the first encoding have
  passed, uncaught and before any parameter changes.
\<close>

theorem data_path_stored_unchecked:
  "PIEGAgent_init L obs_shape action_dim gamma lr feature_dim hidden_dim tau every stddev clip
     data_dir strategy g =
   (case PIEGAgent_init L obs_shape action_dim gamma lr feature_dim hidden_dim tau every stddev
           clip data_dir' strategy g of
      Inl e \<Rightarrow> Inl e
    | Inr a \<Rightarrow> Inr (a\<lparr>places365_data_dir_path := data_dir\<rparr>)) \<and>
   (update_every_steps a \<noteq> 0 \<and> step mod update_every_steps a = 0 \<and>
    RandomShiftsAug_forward L (aug_pad a) (pixels_transformed b) (torch_generator a) =
      Inr (obs, g1) \<and>
    RandomShiftsAug_forward L (aug_pad a) (next_pixels_transformed b) g1 = Inr (next_obs, g2) \<and>
    ResEncoder_forward L (encoder a) obs = Inr enc_obs \<and>
    random_overlay L obs (places365_data_dir_path a) g2 = Inl err \<longrightarrow>
      snd (update L a b step) = Inl err \<and>
      parameters (fst (update L a b step)) = parameters a)"
proof -
  have 1: "PIEGAgent_init L obs_shape action_dim gamma lr feature_dim hidden_dim tau every stddev clip
     data_dir strategy g =
   (case PIEGAgent_init L obs_shape action_dim gamma lr feature_dim hidden_dim tau every stddev
           clip data_dir' strategy g of
      Inl e \<Rightarrow> Inl e
    | Inr a \<Rightarrow> Inr (a\<lparr>places365_data_dir_path := data_dir\<rparr>))"
    by (simp add: PIEGAgent_init_def Let_def split: sum.splits prod.splits)
  have 2: "update_every_steps a \<noteq> 0 \<and> step mod update_every_steps a = 0 \<and>
    RandomShiftsAug_forward L (aug_pad a) (pixels_transformed b) (torch_generator a) =
      Inr (obs, g1) \<and>
    RandomShiftsAug_forward L (aug_pad a) (next_pixels_transformed b) g1 = Inr (next_obs, g2) \<and>
    ResEncoder_forward L (encoder a) obs = Inr enc_obs \<and>
    random_overlay L obs (places365_data_dir_path a) g2 = Inl err \<longrightarrow>
      snd (update L a b step) = Inl err \<and>
      parameters (fst (update L a b step)) = parameters a"
    by (simp add: update_def Let_def train_def parameters_def)
  from 1 2 show ?thesis by blast
qed

theorem data_path_stored_unchecked_witness:
  "update_every_steps example_agent \<noteq> 0 \<and> 4 mod update_every_steps example_agent = 0 \<and>
   RandomShiftsAug_forward example_lib 4 (pixels_transformed example_batch) 0 =
     Inr (pixels_transformed example_batch, 4) \<and>
   RandomShiftsAug_forward example_lib 4 (next_pixels_transformed example_batch) 4 =
     Inr (next_pixels_transformed example_batch, 8) \<and>
   ResEncoder_forward example_lib [[1]] (pixels_transformed example_batch) = Inr [0, 0] \<and>
   random_overlay example_lib (pixels_transformed example_batch) ''/no/such/dir'' 8 =
     Inl FileNotFoundError \<and>
   snd (update example_lib (example_agent\<lparr>places365_data_dir_path := ''/no/such/dir''\<rparr>)
          example_batch 4) = Inl FileNotFoundError \<and>
   parameters (fst (update example_lib
                      (example_agent\<lparr>places365_data_dir_path := ''/no/such/dir''\<rparr>)
                      example_batch 4)) =
     parameters example_agent"
proof -
  let ?a = "example_agent\<lparr>places365_data_dir_path := ''/no/such/dir''\<rparr>"
  have k: "update_every_steps ?a \<noteq> 0" "4 mod update_every_steps ?a = 0"
    by (simp_all add: example_agent_def)
  have a1: "RandomShiftsAug_forward example_lib (aug_pad ?a) (pixels_transformed example_batch)
              (torch_generator ?a) = Inr (pixels_transformed example_batch, 4)"
    by (simp add: example_defs)
  have a2: "RandomShiftsAug_forward example_lib (aug_pad ?a)
              (next_pixels_transformed example_batch) 4 =
            Inr (next_pixels_transformed example_batch, 8)"
    by (simp add: example_defs)
  have e: "ResEncoder_forward example_lib (encoder ?a) (pixels_transformed example_batch) =
           Inr [0, 0]"
    by (simp add: example_defs)
  have o: "random_overlay example_lib (pixels_transformed example_batch)
             (places365_data_dir_path ?a) 8 = Inl FileNotFoundError"
    by (simp add: example_defs)
  from data_path_stored_unchecked [where L = example_lib and a = ?a and step = 4
      and b = example_batch and obs = "pixels_transformed example_batch" and ?g1.0 = 4
      and next_obs = "next_pixels_transformed example_batch" and ?g2.0 = 8
      and enc_obs = "[0, 0]" and err = FileNotFoundError]
    k a1 a2 e o
  show ?thesis by (simp add: example_defs)
qed

text \<open>The claim as the spec states it fails: with a path that holds no corpus the agent
  is constructed without error, and \<open>update\<close> raises.\<close>

theorem data_path_raised_at_update:
  "\<not> isl (PIEGAgent_init example_lib [3, 1, 1] 1 (99 / 100) (1 / 1000) 2 2 (1 / 100) 2 ''0.2''
            (3 / 10) ''/no/such/dir'' RANDOM 2) \<and>
   snd (update example_lib
          (projr (PIEGAgent_init example_lib [3, 1, 1] 1 (99 / 100) (1 / 1000) 2 2 (1 / 100) 2
                    ''0.2'' (3 / 10) ''/no/such/dir'' RANDOM 2))
          example_batch 4) = Inl FileNotFoundError"
  by (simp add: init_defs example_defs)

end
